theory Spec2Isabelle
  imports Complex_Main "HOL-Library.Multiset"
begin

section \<open>The endless-runner simulation of \<open>game.js\<close>\<close>

text \<open>
  The module-level variables of \<open>game.js\<close> become one record that every function
  takes and returns. JavaScript numbers are modelled as mathematical reals (the score,
  which only ever receives \<open>Math.floor\<close> values, as an integer); rounding of
  IEEE doubles is outside the model. The canvas size comes from the page, so it is a
  parameter. Drawing calls change no simulation variable and are left out; the one DOM
  property the simulation writes as a signal, \<open>restartBtn.hidden\<close>, is a field.
\<close>

subsection \<open>Constants\<close>

record canvas =
  width :: real
  height :: real

definition W :: "canvas \<Rightarrow> real" where
  "W cv = width cv"

definition H :: "canvas \<Rightarrow> real" where
  "H cv = height cv"

definition LANES :: "canvas \<Rightarrow> real list" where
  "LANES cv = [W cv * 0.25, W cv * 0.5, W cv * 0.75]"

definition LANE_INDEX_MIN :: int where
  "LANE_INDEX_MIN = 0"

definition LANE_INDEX_MAX :: int where
  "LANE_INDEX_MAX = 2"

definition GROUND_Y :: "canvas \<Rightarrow> real" where
  "GROUND_Y cv = H cv - 120"

definition GRAVITY :: real where
  "GRAVITY = 2200"

definition JUMP_VY :: real where
  "JUMP_VY = - 1100"

definition SLIDE_TIME :: real where
  "SLIDE_TIME = 0.5"

definition PLAYER_SPEED :: real where
  "PLAYER_SPEED = 420"

definition SPAWN_EVERY :: real where
  "SPAWN_EVERY = 1.0"

definition OBSTACLE_SPEED :: real where
  "OBSTACLE_SPEED = PLAYER_SPEED"

definition PLAYER_W :: real where
  "PLAYER_W = 80"

definition PLAYER_H :: real where
  "PLAYER_H = 120"

definition PLAYER_H_SLIDE :: real where
  "PLAYER_H_SLIDE = 70"

definition LANE_SWITCH_TIME :: real where
  "LANE_SWITCH_TIME = 0.15"

subsection \<open>State\<close>

datatype kind = Low | Tall

text \<open>
  An entry of the \<open>obstacles\<close> array, \<open>{x, y, w, h, kind}\<close>. The fields carry the
  prefix \<open>o\<close> because the player's \<open>y\<close> is a variable of its own.
\<close>

record obstacle =
  ox :: real
  oy :: real
  ow :: real
  oh :: real
  okind :: kind

record game =
  running :: bool
  score :: int
  lastTime :: real
  laneIndex :: int
  laneProgress :: real
  laneFrom :: int
  laneTo :: int
  y :: real
  vy :: real
  sliding :: bool
  slideTimer :: real
  obstacles :: "obstacle list"
  spawnTimer :: real
  restartHidden :: bool

subsection \<open>Helpers, reset and commands\<close>

definition clamp :: "int \<Rightarrow> int \<Rightarrow> int \<Rightarrow> int" where
  "clamp v a b = max a (min b v)"

text \<open>
  \<open>reset\<close> assigns every simulation variable, so its result does not depend on the
  previous state. The frame it requests is delivered by the environment as a later
  \<open>loop\<close> call.
\<close>

definition reset :: "canvas \<Rightarrow> game \<Rightarrow> game" where
  "reset cv s =
     s\<lparr>running := True, score := 0, lastTime := 0,
       laneIndex := 1, laneFrom := 1, laneTo := 1, laneProgress := 1,
       y := GROUND_Y cv - PLAYER_H, vy := 0,
       sliding := False, slideTimer := 0,
       obstacles := [], spawnTimer := 0,
       restartHidden := True\<rparr>"

definition beginLaneMove :: "int \<Rightarrow> game \<Rightarrow> game" where
  "beginLaneMove newIndex0 s =
     (let newIndex = clamp newIndex0 LANE_INDEX_MIN LANE_INDEX_MAX
      in if newIndex = laneTo s then s
         else s\<lparr>laneFrom := laneIndex s, laneTo := newIndex,
                laneIndex := newIndex, laneProgress := 0\<rparr>)"

definition moveLeft :: "game \<Rightarrow> game" where
  "moveLeft s = beginLaneMove (laneIndex s - 1) s"

definition moveRight :: "game \<Rightarrow> game" where
  "moveRight s = beginLaneMove (laneIndex s + 1) s"

definition currentPlayerH :: "game \<Rightarrow> real" where
  "currentPlayerH s = (if sliding s then PLAYER_H_SLIDE else PLAYER_H)"

definition onGround :: "canvas \<Rightarrow> game \<Rightarrow> bool" where
  "onGround cv s \<longleftrightarrow> y s \<ge> GROUND_Y cv - currentPlayerH s"

definition jump :: "canvas \<Rightarrow> game \<Rightarrow> game" where
  "jump cv s =
     (if onGround cv s \<and> running s then s\<lparr>sliding := False, vy := JUMP_VY\<rparr> else s)"

definition slide :: "canvas \<Rightarrow> game \<Rightarrow> game" where
  "slide cv s =
     (if \<not> running s then s
      else if \<not> sliding s \<and> onGround cv s
           then s\<lparr>sliding := True, slideTimer := SLIDE_TIME\<rparr>
           else s)"

subsection \<open>Obstacles and collision\<close>

text \<open>
  \<open>spawnObstacle\<close> draws two numbers from \<open>Math.random()\<close>; they are arguments
  here. The lane it computes from the first is never stored in the obstacle.
\<close>

definition spawnObstacle :: "canvas \<Rightarrow> real \<times> real \<Rightarrow> game \<Rightarrow> game" where
  "spawnObstacle cv rnd s =
     (let lane = \<lfloor>fst rnd * 3\<rfloor>;
          k = (if snd rnd < 0.5 then Low else Tall);
          w0 = 80;
          h0 = (if k = Low then 70 else 120);
          x0 = W cv + 100;
          yBase = GROUND_Y cv - h0
      in s\<lparr>obstacles := obstacles s @ [\<lparr>ox = x0, oy = yBase, ow = w0, oh = h0, okind = k\<rparr>]\<rparr>)"

definition collides ::
  "real \<Rightarrow> real \<Rightarrow> real \<Rightarrow> real \<Rightarrow> real \<Rightarrow> real \<Rightarrow> real \<Rightarrow> real \<Rightarrow> bool" where
  "collides ax ay aw ah bx by bw bh \<longleftrightarrow>
     ax < bx + bw \<and> ax + aw > bx \<and> ay < by + bh \<and> ay + ah > by"

definition easeOutCubic :: "real \<Rightarrow> real" where
  "easeOutCubic t = 1 - (1 - t) ^ 3"

text \<open>
  The obstacle loop of \<open>loop\<close> walks the array from its last index down, moves each
  obstacle left and splices it out once it is left of \<open>-150\<close>. The tail is therefore
  processed before the head, and the survivors keep their order.
\<close>

fun moveObstacles :: "real \<Rightarrow> obstacle list \<Rightarrow> obstacle list" where
  "moveObstacles dt [] = []"
| "moveObstacles dt (b # bs) =
     (let rest = moveObstacles dt bs;
          b' = b\<lparr>ox := ox b - OBSTACLE_SPEED * dt\<rparr>
      in if ox b' < - 150 then rest else b' # rest)"

text \<open>
  The collision loop: \<open>for (const o of obstacles)\<close> with a \<open>break\<close> at the first
  hit. The result says whether some iteration reached the body of the \<open>if\<close>.
\<close>

fun hitAny :: "real \<Rightarrow> real \<Rightarrow> real \<Rightarrow> real \<Rightarrow> obstacle list \<Rightarrow> bool" where
  "hitAny px py pw ph [] = False"
| "hitAny px py pw ph (b # bs) =
     (if collides px py pw ph (ox b - ow b / 2) (oy b) (ow b) (oh b) then True
      else hitAny px py pw ph bs)"

subsection \<open>The game loop\<close>

text \<open>
  The interpolated lane position, the local \<open>laneX\<close> of \<open>loop\<close>. The lane indices
  are within \<open>0..2\<close> in every state the program reaches (\<open>beginLaneMove\<close> clamps
  them; see \<open>lanes_in_range\<close> below), so the array reads are in range.
\<close>

definition laneX :: "canvas \<Rightarrow> game \<Rightarrow> real" where
  "laneX cv s =
     LANES cv ! nat (laneFrom s)
       + (LANES cv ! nat (laneTo s) - LANES cv ! nat (laneFrom s)) * easeOutCubic (laneProgress s)"

text \<open>The statements of \<open>loop\<close> after \<open>dt\<close> is known, in source order.\<close>

definition updateScore :: "real \<Rightarrow> game \<Rightarrow> game" where
  "updateScore dt s = (if running s then s\<lparr>score := score s + \<lfloor>200 * dt\<rfloor>\<rparr> else s)"

definition updateLane :: "real \<Rightarrow> game \<Rightarrow> game" where
  "updateLane dt s =
     (if laneProgress s < 1
      then s\<lparr>laneProgress := min 1 (laneProgress s + dt / LANE_SWITCH_TIME)\<rparr>
      else s)"

definition physics :: "canvas \<Rightarrow> real \<Rightarrow> game \<Rightarrow> game" where
  "physics cv dt s =
     (let s1 = s\<lparr>vy := vy s + GRAVITY * dt\<rparr>;
          s2 = s1\<lparr>y := y s1 + vy s1 * dt\<rparr>;
          groundTop = GROUND_Y cv - currentPlayerH s2
      in if y s2 > groundTop then s2\<lparr>y := groundTop, vy := 0\<rparr> else s2)"

definition updateSlide :: "real \<Rightarrow> game \<Rightarrow> game" where
  "updateSlide dt s =
     (if sliding s
      then (let s1 = s\<lparr>slideTimer := slideTimer s - dt\<rparr>
            in if slideTimer s1 \<le> 0 then s1\<lparr>sliding := False\<rparr> else s1)
      else s)"

definition updateSpawn :: "canvas \<Rightarrow> real \<Rightarrow> real \<times> real \<Rightarrow> game \<Rightarrow> game" where
  "updateSpawn cv dt rnd s =
     (let s1 = s\<lparr>spawnTimer := spawnTimer s + dt\<rparr>
      in if spawnTimer s1 \<ge> SPAWN_EVERY
         then spawnObstacle cv rnd (s1\<lparr>spawnTimer := 0\<rparr>)
         else s1)"

definition updateObstacles :: "real \<Rightarrow> game \<Rightarrow> game" where
  "updateObstacles dt s = s\<lparr>obstacles := moveObstacles dt (obstacles s)\<rparr>"

definition checkCollisions :: "canvas \<Rightarrow> game \<Rightarrow> game" where
  "checkCollisions cv s =
     (let pw = PLAYER_W; ph = currentPlayerH s
      in if running s \<and> hitAny (laneX cv s - pw / 2) (y s) pw ph (obstacles s)
         then s\<lparr>running := False, restartHidden := False\<rparr>
         else s)"

definition step :: "canvas \<Rightarrow> real \<Rightarrow> real \<times> real \<Rightarrow> game \<Rightarrow> game" where
  "step cv dt rnd s =
     checkCollisions cv
       (updateObstacles dt
         (updateSpawn cv dt rnd
           (updateSlide dt
             (physics cv dt
               (updateLane dt
                 (updateScore dt s))))))"

text \<open>
  \<open>frameDt\<close> is the \<open>dt\<close> that \<open>loop\<close> computes from the timestamp: \<open>lastTime\<close>
  is replaced by \<open>ts\<close> first when it is \<open>0\<close> (falsy), and only the upper side is
  clamped. The call of \<open>requestAnimationFrame\<close> that closes \<open>loop\<close> only
  asks for the next callback; in the model the callbacks are the \<open>Frame\<close> events
  of a run.
\<close>

definition frameDt :: "real \<Rightarrow> game \<Rightarrow> real" where
  "frameDt ts s =
     (let lt = (if lastTime s = 0 then ts else lastTime s)
      in min 0.032 ((ts - lt) / 1000))"

definition loop :: "canvas \<Rightarrow> real \<Rightarrow> real \<times> real \<Rightarrow> game \<Rightarrow> game" where
  "loop cv ts rnd s = step cv (frameDt ts s) rnd (s\<lparr>lastTime := ts\<rparr>)"

subsection \<open>Runs\<close>

text \<open>
  What the page can do to the simulation: the five commands and a frame callback with
  its timestamp and the random numbers a spawn in that frame would draw.
\<close>

datatype event = MoveLeft | MoveRight | Jump | Slide | Reset | Frame real "real \<times> real"

fun apply_event :: "canvas \<Rightarrow> event \<Rightarrow> game \<Rightarrow> game" where
  "apply_event cv MoveLeft s = moveLeft s"
| "apply_event cv MoveRight s = moveRight s"
| "apply_event cv Jump s = jump cv s"
| "apply_event cv Slide s = slide cv s"
| "apply_event cv Reset s = reset cv s"
| "apply_event cv (Frame ts rnd) s = loop cv ts rnd s"

fun exec :: "canvas \<Rightarrow> event list \<Rightarrow> game \<Rightarrow> game" where
  "exec cv [] s = s"
| "exec cv (e # es) s = exec cv es (apply_event cv e s)"

text \<open>
  The script ends with \<open>reset()\<close>, so the state the first event meets is a reset
  state; the declared initial values it overwrites are these.
\<close>

definition declared :: "canvas \<Rightarrow> game" where
  "declared cv =
     \<lparr>running = True, score = 0, lastTime = 0, laneIndex = 1, laneProgress = 0,
      laneFrom = 1, laneTo = 1, y = GROUND_Y cv - PLAYER_H, vy = 0,
      sliding = False, slideTimer = 0, obstacles = [], spawnTimer = 0,
      restartHidden = False\<rparr>"

definition init :: "canvas \<Rightarrow> game" where
  "init cv = reset cv (declared cv)"


text \<open>
  The number of events of a run at which \<open>running\<close> goes from true to false, that is,
  the number of times the run ends.
\<close>

fun endings :: "canvas \<Rightarrow> event list \<Rightarrow> game \<Rightarrow> nat" where
  "endings cv [] s = 0"
| "endings cv (e # es) s =
     (if running s \<and> \<not> running (apply_event cv e s) then 1 else 0)
       + endings cv es (apply_event cv e s)"

subsection \<open>Observations on a run\<close>



text \<open>
  What holds before every event of a run that starts at \<open>init\<close>, whatever the
  timestamps are: a slide in progress has time left, an expired slide timer is less
  than one clamped time step below zero, the spawn timer is below its threshold, and
  no obstacle left of the pruning line is kept.
\<close>

definition stepInv :: "game \<Rightarrow> bool" where
  "stepInv s \<longleftrightarrow>
     (sliding s \<longrightarrow> 0 < slideTimer s) \<and> - 0.032 < slideTimer s
     \<and> spawnTimer s < SPAWN_EVERY \<and> (\<forall>b \<in> set (obstacles s). \<not> ox b < - 150)"

subsection \<open>Concrete runs\<close>

text \<open>A canvas of 480 by 640 pixels for the concrete runs below.\<close>

definition cv0 :: canvas where
  "cv0 = \<lparr>width = 480, height = 640\<rparr>"

text \<open>
  Two obstacles on the 480 by 640 canvas: \<open>farObstacle\<close> has just been spawned and is
  off to the right, \<open>nearObstacle\<close> is a low one in the centre lane, under the player.
\<close>

definition farObstacle :: obstacle where
  "farObstacle = \<lparr>ox = 580, oy = 400, ow = 80, oh = 120, okind = Tall\<rparr>"

definition nearObstacle :: obstacle where
  "nearObstacle = \<lparr>ox = 240, oy = 450, ow = 80, oh = 70, okind = Low\<rparr>"

text \<open>
  A run that ends: the game is running with a low obstacle under the player, and the
  next frame detects the hit.
\<close>

definition aboutToHit :: game where
  "aboutToHit = (init cv0)\<lparr>lastTime := 1000, obstacles := [nearObstacle]\<rparr>"

definition afterHit :: "event list" where
  "afterHit = [Jump, Frame 1064 (0, 0), MoveLeft, Slide, Frame 1096 (0, 0)]"

text \<open>
  A slide that runs out: the first frame, \<open>slide()\<close>, and fifteen more frames 32 ms
  apart; the frame at 1512 ms is the one in which the timer expires.
\<close>

definition slidePrefix :: "event list" where
  "slidePrefix =
     [Frame 1000 (0, 0), Slide, Frame 1032 (0, 0), Frame 1064 (0, 0), Frame 1096 (0, 0),
      Frame 1128 (0, 0), Frame 1160 (0, 0), Frame 1192 (0, 0), Frame 1224 (0, 0),
      Frame 1256 (0, 0), Frame 1288 (0, 0), Frame 1320 (0, 0), Frame 1352 (0, 0),
      Frame 1384 (0, 0), Frame 1416 (0, 0), Frame 1448 (0, 0), Frame 1480 (0, 0)]"

text \<open>
  The first frame at 1000 ms, a lane move and a slide; the callback is then delivered
  a second time with the same timestamp.
\<close>

definition repeatedFrame :: "event list" where
  "repeatedFrame = [Frame 1000 (0, 0), MoveLeft, Slide]"


section \<open>What each statement of the loop leaves alone\<close>

lemma updateScore_fields:
  "running (updateScore dt s) = running s"
  "lastTime (updateScore dt s) = lastTime s"
  "laneIndex (updateScore dt s) = laneIndex s"
  "laneProgress (updateScore dt s) = laneProgress s"
  "laneFrom (updateScore dt s) = laneFrom s"
  "laneTo (updateScore dt s) = laneTo s"
  "y (updateScore dt s) = y s"
  "vy (updateScore dt s) = vy s"
  "sliding (updateScore dt s) = sliding s"
  "slideTimer (updateScore dt s) = slideTimer s"
  "obstacles (updateScore dt s) = obstacles s"
  "spawnTimer (updateScore dt s) = spawnTimer s"
  "restartHidden (updateScore dt s) = restartHidden s"
  by (simp_all add: updateScore_def)

lemma updateLane_fields:
  "running (updateLane dt s) = running s"
  "score (updateLane dt s) = score s"
  "lastTime (updateLane dt s) = lastTime s"
  "laneIndex (updateLane dt s) = laneIndex s"
  "laneFrom (updateLane dt s) = laneFrom s"
  "laneTo (updateLane dt s) = laneTo s"
  "y (updateLane dt s) = y s"
  "vy (updateLane dt s) = vy s"
  "sliding (updateLane dt s) = sliding s"
  "slideTimer (updateLane dt s) = slideTimer s"
  "obstacles (updateLane dt s) = obstacles s"
  "spawnTimer (updateLane dt s) = spawnTimer s"
  "restartHidden (updateLane dt s) = restartHidden s"
  by (simp_all add: updateLane_def)

lemma physics_fields:
  "running (physics cv dt s) = running s"
  "score (physics cv dt s) = score s"
  "lastTime (physics cv dt s) = lastTime s"
  "laneIndex (physics cv dt s) = laneIndex s"
  "laneProgress (physics cv dt s) = laneProgress s"
  "laneFrom (physics cv dt s) = laneFrom s"
  "laneTo (physics cv dt s) = laneTo s"
  "sliding (physics cv dt s) = sliding s"
  "slideTimer (physics cv dt s) = slideTimer s"
  "obstacles (physics cv dt s) = obstacles s"
  "spawnTimer (physics cv dt s) = spawnTimer s"
  "restartHidden (physics cv dt s) = restartHidden s"
  by (simp_all add: physics_def Let_def)

lemma updateSlide_fields:
  "running (updateSlide dt s) = running s"
  "score (updateSlide dt s) = score s"
  "lastTime (updateSlide dt s) = lastTime s"
  "laneIndex (updateSlide dt s) = laneIndex s"
  "laneProgress (updateSlide dt s) = laneProgress s"
  "laneFrom (updateSlide dt s) = laneFrom s"
  "laneTo (updateSlide dt s) = laneTo s"
  "y (updateSlide dt s) = y s"
  "vy (updateSlide dt s) = vy s"
  "obstacles (updateSlide dt s) = obstacles s"
  "spawnTimer (updateSlide dt s) = spawnTimer s"
  "restartHidden (updateSlide dt s) = restartHidden s"
  by (simp_all add: updateSlide_def Let_def)

lemma updateSpawn_fields:
  "running (updateSpawn cv dt rnd s) = running s"
  "score (updateSpawn cv dt rnd s) = score s"
  "lastTime (updateSpawn cv dt rnd s) = lastTime s"
  "laneIndex (updateSpawn cv dt rnd s) = laneIndex s"
  "laneProgress (updateSpawn cv dt rnd s) = laneProgress s"
  "laneFrom (updateSpawn cv dt rnd s) = laneFrom s"
  "laneTo (updateSpawn cv dt rnd s) = laneTo s"
  "y (updateSpawn cv dt rnd s) = y s"
  "vy (updateSpawn cv dt rnd s) = vy s"
  "sliding (updateSpawn cv dt rnd s) = sliding s"
  "slideTimer (updateSpawn cv dt rnd s) = slideTimer s"
  "restartHidden (updateSpawn cv dt rnd s) = restartHidden s"
  by (simp_all add: updateSpawn_def spawnObstacle_def Let_def)

lemma updateObstacles_fields:
  "running (updateObstacles dt s) = running s"
  "score (updateObstacles dt s) = score s"
  "lastTime (updateObstacles dt s) = lastTime s"
  "laneIndex (updateObstacles dt s) = laneIndex s"
  "laneProgress (updateObstacles dt s) = laneProgress s"
  "laneFrom (updateObstacles dt s) = laneFrom s"
  "laneTo (updateObstacles dt s) = laneTo s"
  "y (updateObstacles dt s) = y s"
  "vy (updateObstacles dt s) = vy s"
  "sliding (updateObstacles dt s) = sliding s"
  "slideTimer (updateObstacles dt s) = slideTimer s"
  "spawnTimer (updateObstacles dt s) = spawnTimer s"
  "restartHidden (updateObstacles dt s) = restartHidden s"
  by (simp_all add: updateObstacles_def)

lemma checkCollisions_fields:
  "score (checkCollisions cv s) = score s"
  "lastTime (checkCollisions cv s) = lastTime s"
  "laneIndex (checkCollisions cv s) = laneIndex s"
  "laneProgress (checkCollisions cv s) = laneProgress s"
  "laneFrom (checkCollisions cv s) = laneFrom s"
  "laneTo (checkCollisions cv s) = laneTo s"
  "y (checkCollisions cv s) = y s"
  "vy (checkCollisions cv s) = vy s"
  "sliding (checkCollisions cv s) = sliding s"
  "slideTimer (checkCollisions cv s) = slideTimer s"
  "obstacles (checkCollisions cv s) = obstacles s"
  "spawnTimer (checkCollisions cv s) = spawnTimer s"
  by (simp_all add: checkCollisions_def Let_def)

lemmas stage_fields =
  updateScore_fields updateLane_fields physics_fields updateSlide_fields
  updateSpawn_fields updateObstacles_fields checkCollisions_fields

lemma step_score:
  "score (step cv dt rnd s) = (if running s then score s + \<lfloor>200 * dt\<rfloor> else score s)"
  by (simp add: step_def stage_fields updateScore_def)

lemma step_stays_ended: "\<not> running s \<Longrightarrow> \<not> running (step cv dt rnd s)"
  by (simp add: step_def stage_fields checkCollisions_def)

lemma frameDt_le: "frameDt ts s \<le> 0.032"
  by (simp add: frameDt_def Let_def)

section \<open>Collision test\<close>

text \<open>
  C7. \<open>collides\<close> is true for the player box (100, 100, 80, 120) against the obstacle
  box (100, 130, 80, 70), false against the box (300, 100, 80, 120), which lies wholly
  to the right, and false for any two boxes of which one begins exactly where the
  other ends, horizontally or vertically: all four comparisons are strict.
\<close>

theorem collides_examples_and_touching:
  "collides 100 100 80 120 100 130 80 70
   \<and> \<not> collides 100 100 80 120 300 100 80 120
   \<and> (ax + aw = bx \<or> bx + bw = ax \<or> ay + ah = by \<or> by + bh = ay
        \<longrightarrow> \<not> collides ax ay aw ah bx by bw bh)"
  by (auto simp: collides_def)

theorem collides_examples_and_touching_witness:
  "((100::real) + 80 = 180 \<or> (180::real) + 80 = 100 \<or> (100::real) + 120 = 100
      \<or> (100::real) + 120 = 100)
   \<and> \<not> collides 100 100 80 120 180 100 80 120"
  using collides_examples_and_touching [of 100 80 180 80 100 120 100 120] by simp

lemma hitAny_iff:
  "hitAny px py pw ph bs \<longleftrightarrow>
     (\<exists>b \<in> set bs. collides px py pw ph (ox b - ow b / 2) (oy b) (ow b) (oh b))"
  by (induction bs) auto

text \<open>
  C8. For a fixed state after integration, the outcome of the collision phase does not
  depend on the order of the obstacle list: two lists with the same obstacles (as
  multisets) give the same answer from the short-circuiting loop, and so the same
  \<open>running\<close> flag and the same restart button.
\<close>

theorem collision_outcome_order_independent:
  assumes "mset bs = mset bs'"
  shows "hitAny px py pw ph bs = hitAny px py pw ph bs'
     \<and> running (checkCollisions cv (s\<lparr>obstacles := bs\<rparr>))
         = running (checkCollisions cv (s\<lparr>obstacles := bs'\<rparr>))
     \<and> restartHidden (checkCollisions cv (s\<lparr>obstacles := bs\<rparr>))
         = restartHidden (checkCollisions cv (s\<lparr>obstacles := bs'\<rparr>))"
proof -
  from assms have "set bs = set bs'" by (rule mset_eq_setD)
  then have h: "\<And>px py pw ph. hitAny px py pw ph bs = hitAny px py pw ph bs'"
    by (simp add: hitAny_iff)
  have lx: "laneX cv (s\<lparr>obstacles := bs\<rparr>) = laneX cv (s\<lparr>obstacles := bs'\<rparr>)"
    by (simp add: laneX_def)
  have ph: "currentPlayerH (s\<lparr>obstacles := bs\<rparr>) = currentPlayerH (s\<lparr>obstacles := bs'\<rparr>)"
    by (simp add: currentPlayerH_def)
  show ?thesis
    using h lx ph by (simp add: checkCollisions_def Let_def)
qed

theorem collision_outcome_order_independent_witness:
  "mset [farObstacle, nearObstacle] = mset [nearObstacle, farObstacle]
   \<and> running (checkCollisions cv0 ((init cv0)\<lparr>obstacles := [farObstacle, nearObstacle]\<rparr>))
       = running (checkCollisions cv0 ((init cv0)\<lparr>obstacles := [nearObstacle, farObstacle]\<rparr>))
   \<and> \<not> running (checkCollisions cv0 ((init cv0)\<lparr>obstacles := [nearObstacle, farObstacle]\<rparr>))"
proof -
  have m: "mset [farObstacle, nearObstacle] = mset [nearObstacle, farObstacle]"
    by simp
  have e: "\<not> running (checkCollisions cv0 ((init cv0)\<lparr>obstacles := [nearObstacle, farObstacle]\<rparr>))"
    by (simp add: checkCollisions_def Let_def init_def reset_def declared_def cv0_def
        laneX_def LANES_def W_def H_def GROUND_Y_def PLAYER_W_def PLAYER_H_def
        currentPlayerH_def easeOutCubic_def nearObstacle_def farObstacle_def collides_def)
  from collision_outcome_order_independent [OF m, of _ _ _ _ cv0 "init cv0"] m e
  show ?thesis by simp
qed

section \<open>Reset\<close>

text \<open>
  C9. After any sequence of commands and frames, from any state, \<open>reset\<close> leaves
  every simulation variable at its initial value: centre lane with the interpolation
  settled (\<open>laneIndex = laneFrom = laneTo = 1\<close>, \<open>laneProgress = 1\<close>), score 0, no
  obstacles, spawn timer 0, not sliding with slide timer 0, standing on the ground with
  vertical velocity 0, and running.
\<close>

theorem reset_restores_initial_state:
  "reset cv (exec cv es s) =
     \<lparr>running = True, score = 0, lastTime = 0, laneIndex = 1, laneProgress = 1,
      laneFrom = 1, laneTo = 1, y = GROUND_Y cv - PLAYER_H, vy = 0,
      sliding = False, slideTimer = 0, obstacles = [], spawnTimer = 0,
      restartHidden = True\<rparr>"
  by (simp add: reset_def)

section \<open>Score\<close>



section \<open>The end of a run\<close>

lemma apply_event_ended:
  "\<not> running s \<Longrightarrow> e \<noteq> Reset \<Longrightarrow>
     \<not> running (apply_event cv e s) \<and> score (apply_event cv e s) = score s"
  by (cases e)
     (simp_all add: moveLeft_def moveRight_def beginLaneMove_def Let_def jump_def slide_def
        loop_def step_score step_stays_ended)

lemma exec_ended:
  "\<not> running s \<Longrightarrow> Reset \<notin> set es \<Longrightarrow>
     \<not> running (exec cv es s) \<and> score (exec cv es s) = score s"
proof (induction es arbitrary: s)
  case Nil
  then show ?case by simp
next
  case (Cons e es)
  from Cons.prems have ne: "e \<noteq> Reset" and rest: "Reset \<notin> set es" by auto
  from apply_event_ended [OF Cons.prems(1) ne, of cv]
  have a: "\<not> running (apply_event cv e s)" and b: "score (apply_event cv e s) = score s"
    by simp_all
  from Cons.IH [OF a rest] b show ?case by simp
qed

lemma endings_ended: "\<not> running s \<Longrightarrow> Reset \<notin> set es \<Longrightarrow> endings cv es s = 0"
proof (induction es arbitrary: s)
  case Nil
  then show ?case by simp
next
  case (Cons e es)
  from Cons.prems have ne: "e \<noteq> Reset" and rest: "Reset \<notin> set es" by auto
  from apply_event_ended [OF Cons.prems(1) ne, of cv]
  have a: "\<not> running (apply_event cv e s)" by simp
  from Cons.IH [OF a rest] Cons.prems(1) show ?case by simp
qed

text \<open>
  C2. In a run without \<open>reset\<close>: once \<open>running\<close> is false (only the collision phase
  makes it so), it stays false and the score stays what it was, whatever commands and
  frames follow; and \<open>running\<close> goes from true to false at most once.
\<close>

theorem ended_run_is_terminal:
  assumes "Reset \<notin> set es"
  shows "(\<not> running s \<longrightarrow> \<not> running (exec cv es s) \<and> score (exec cv es s) = score s)
     \<and> endings cv es s \<le> 1"
proof
  show "\<not> running s \<longrightarrow> \<not> running (exec cv es s) \<and> score (exec cv es s) = score s"
    using exec_ended [OF _ assms] by blast
next
  from assms show "endings cv es s \<le> 1"
  proof (induction es arbitrary: s)
    case Nil
    then show ?case by simp
  next
    case (Cons e es)
    from Cons.prems have rest: "Reset \<notin> set es" by auto
    show ?case
    proof (cases "running s \<and> \<not> running (apply_event cv e s)")
      case True
      then have "endings cv es (apply_event cv e s) = 0"
        using endings_ended rest by blast
      then show ?thesis using True by simp
    next
      case False
      then have "endings cv (e # es) s = endings cv es (apply_event cv e s)" by auto
      then show ?thesis using Cons.IH [OF rest] by simp
    qed
  qed
qed

lemma aboutToHit_frame:
  "loop cv0 1032 (0, 0) aboutToHit =
     \<lparr>running = False, score = 6, lastTime = 1032, laneIndex = 1, laneProgress = 1,
      laneFrom = 1, laneTo = 1, y = 400, vy = 0, sliding = False, slideTimer = 0,
      obstacles = [nearObstacle\<lparr>ox := 226.56\<rparr>], spawnTimer = 0.032,
      restartHidden = False\<rparr>"
  by code_simp

theorem ended_run_is_terminal_witness:
  "Reset \<notin> set afterHit
   \<and> running aboutToHit
   \<and> \<not> running (loop cv0 1032 (0, 0) aboutToHit)
   \<and> \<not> running (exec cv0 afterHit (loop cv0 1032 (0, 0) aboutToHit))
   \<and> score (exec cv0 afterHit (loop cv0 1032 (0, 0) aboutToHit)) = 6
   \<and> endings cv0 afterHit (loop cv0 1032 (0, 0) aboutToHit) \<le> 1"
proof -
  have r: "Reset \<notin> set afterHit"
    by (simp add: afterHit_def)
  have a: "running aboutToHit"
    by (simp add: aboutToHit_def init_def reset_def)
  have b: "\<not> running (loop cv0 1032 (0, 0) aboutToHit)"
    by (simp add: aboutToHit_frame)
  have c: "score (loop cv0 1032 (0, 0) aboutToHit) = 6"
    by (simp add: aboutToHit_frame)
  from ended_run_is_terminal [OF r, of "loop cv0 1032 (0, 0) aboutToHit" cv0] r a b c
  show ?thesis by simp
qed

section \<open>Invariants of every run\<close>


lemma step_sliding:
  "sliding (step cv dt rnd s) = (sliding s \<and> \<not> slideTimer s - dt \<le> 0)"
  by (simp add: step_def stage_fields updateSlide_def Let_def)

lemma step_slideTimer:
  "slideTimer (step cv dt rnd s) = (if sliding s then slideTimer s - dt else slideTimer s)"
  by (simp add: step_def stage_fields updateSlide_def Let_def)

lemma step_spawnTimer:
  "spawnTimer (step cv dt rnd s) =
     (if spawnTimer s + dt \<ge> SPAWN_EVERY then 0 else spawnTimer s + dt)"
  by (simp add: step_def stage_fields updateSpawn_def spawnObstacle_def Let_def)

lemma moveObstacles_kept: "b \<in> set (moveObstacles dt bs) \<Longrightarrow> \<not> ox b < - 150"
  by (induction bs) (auto simp: Let_def split: if_splits)

lemma moveObstacles_zero: "\<forall>b \<in> set bs. \<not> ox b < - 150 \<Longrightarrow> moveObstacles 0 bs = bs"
  by (induction bs) (simp_all add: Let_def)

lemma step_obstacles:
  "obstacles (step cv dt rnd s) = moveObstacles dt (obstacles (updateSpawn cv dt rnd s))"
  by (simp add: step_def stage_fields updateObstacles_def updateSpawn_def spawnObstacle_def
      Let_def)

lemma step_laneProgress:
  "laneProgress (step cv dt rnd s) =
     (if laneProgress s < 1 then min 1 (laneProgress s + dt / LANE_SWITCH_TIME)
      else laneProgress s)"
  by (simp add: step_def stage_fields updateLane_def)

lemma step_lanes:
  "laneFrom (step cv dt rnd s) = laneFrom s"
  "laneTo (step cv dt rnd s) = laneTo s"
  "laneIndex (step cv dt rnd s) = laneIndex s"
  by (simp_all add: step_def stage_fields)

lemma step_y:
  "y (step cv dt rnd s) = y (physics cv dt s)"
  "vy (step cv dt rnd s) = vy (physics cv dt s)"
  by (simp_all add: step_def stage_fields physics_def Let_def currentPlayerH_def)

lemma loop_stepInv: "stepInv s \<Longrightarrow> stepInv (loop cv ts rnd s)"
  unfolding stepInv_def loop_def
  using frameDt_le [of ts s]
  by (auto simp: step_sliding step_slideTimer step_spawnTimer step_obstacles SPAWN_EVERY_def
      dest: moveObstacles_kept)

lemma apply_event_stepInv: "stepInv s \<Longrightarrow> stepInv (apply_event cv e s)"
proof (cases e)
  case (Frame ts rnd)
  assume "stepInv s"
  then show ?thesis using Frame by (simp add: loop_stepInv)
qed (auto simp: stepInv_def moveLeft_def moveRight_def beginLaneMove_def Let_def jump_def
      slide_def reset_def SLIDE_TIME_def SPAWN_EVERY_def)

lemma exec_stepInv: "stepInv s \<Longrightarrow> stepInv (exec cv es s)"
  by (induction es arbitrary: s) (simp_all add: apply_event_stepInv)

lemma init_stepInv: "stepInv (init cv)"
  by (simp add: stepInv_def init_def reset_def SPAWN_EVERY_def)

text \<open>
  The lane indices stay within the \<open>LANES\<close> array, so \<open>laneX\<close> never reads out
  of range in a run from the initial state.
\<close>

lemma apply_event_lane_range:
  assumes "0 \<le> laneFrom s \<and> laneFrom s \<le> 2 \<and> 0 \<le> laneTo s \<and> laneTo s \<le> 2
     \<and> 0 \<le> laneIndex s \<and> laneIndex s \<le> 2"
  shows "0 \<le> laneFrom (apply_event cv e s) \<and> laneFrom (apply_event cv e s) \<le> 2
     \<and> 0 \<le> laneTo (apply_event cv e s) \<and> laneTo (apply_event cv e s) \<le> 2
     \<and> 0 \<le> laneIndex (apply_event cv e s) \<and> laneIndex (apply_event cv e s) \<le> 2"
  using assms
  by (cases e)
     (simp_all add: moveLeft_def moveRight_def beginLaneMove_def Let_def clamp_def
        LANE_INDEX_MIN_def LANE_INDEX_MAX_def jump_def slide_def reset_def loop_def step_lanes)

lemma exec_lane_range:
  "0 \<le> laneFrom s \<and> laneFrom s \<le> 2 \<and> 0 \<le> laneTo s \<and> laneTo s \<le> 2
     \<and> 0 \<le> laneIndex s \<and> laneIndex s \<le> 2 \<Longrightarrow>
   0 \<le> laneFrom (exec cv es s) \<and> laneFrom (exec cv es s) \<le> 2
     \<and> 0 \<le> laneTo (exec cv es s) \<and> laneTo (exec cv es s) \<le> 2
     \<and> 0 \<le> laneIndex (exec cv es s) \<and> laneIndex (exec cv es s) \<le> 2"
proof (induction es arbitrary: s)
  case Nil
  then show ?case by simp
next
  case (Cons e es)
  from Cons.IH [OF apply_event_lane_range [OF Cons.prems]] show ?case by simp
qed

lemma lanes_in_range:
  "nat (laneFrom (exec cv es (init cv))) < length (LANES cv)
   \<and> nat (laneTo (exec cv es (init cv))) < length (LANES cv)"
proof -
  have "0 \<le> laneFrom (init cv) \<and> laneFrom (init cv) \<le> 2 \<and> 0 \<le> laneTo (init cv)
      \<and> laneTo (init cv) \<le> 2 \<and> 0 \<le> laneIndex (init cv) \<and> laneIndex (init cv) \<le> 2"
    by (simp add: init_def reset_def)
  from exec_lane_range [OF this, of cv es] show ?thesis
    by (simp add: LANES_def) linarith
qed

lemma slidePrefix_state:
  "exec cv0 slidePrefix (init cv0) =
     \<lparr>running = True, score = 90, lastTime = 1480, laneIndex = 1,
      laneProgress = 1, laneFrom = 1, laneTo = 1, y = 450, vy = 0,
      sliding = True, slideTimer = 0.02, obstacles = [],
      spawnTimer = 0.48, restartHidden = True\<rparr>"
  by code_simp

lemma slide_expiry_frame:
  "loop cv0 1512 (0, 0) (exec cv0 slidePrefix (init cv0)) =
     \<lparr>running = True, score = 96, lastTime = 1512, laneIndex = 1,
      laneProgress = 1, laneFrom = 1, laneTo = 1, y = 450, vy = 0,
      sliding = False, slideTimer = - 0.012, obstacles = [],
      spawnTimer = 0.512, restartHidden = True\<rparr>"
  unfolding slidePrefix_state by code_simp

section \<open>Slide timer\<close>




section \<open>Ground clamp\<close>

lemma physics_le: "y (physics cv dt s) \<le> GROUND_Y cv - currentPlayerH s"
  by (simp add: physics_def Let_def currentPlayerH_def)

lemma physics_landing:
  "y s + (vy s + GRAVITY * dt) * dt > GROUND_Y cv - currentPlayerH s \<Longrightarrow>
     y (physics cv dt s) = GROUND_Y cv - currentPlayerH s \<and> vy (physics cv dt s) = 0"
  by (simp add: physics_def Let_def currentPlayerH_def)

lemma physics_zero:
  "y s \<le> GROUND_Y cv - currentPlayerH s \<Longrightarrow>
     y (physics cv 0 s) = y s \<and> vy (physics cv 0 s) = vy s"
  by (simp add: physics_def Let_def currentPlayerH_def)

text \<open>
  C3, as stated: at the end of a frame with a time step of at least zero, \<open>y\<close> is not
  below the ground line of the stance the player then has. It fails in the frame in
  which a slide expires: the clamp uses the sliding height, the slide timer then
  switches the stance to standing, and the frame ends with \<open>y = 450\<close> while the
  standing ground line is at 400.
\<close>

theorem slide_expiry_below_ground_counterexample:
  "0 \<le> frameDt 1512 (exec cv0 slidePrefix (init cv0))
   \<and> \<not> y (loop cv0 1512 (0, 0) (exec cv0 slidePrefix (init cv0)))
        \<le> GROUND_Y cv0 - currentPlayerH (loop cv0 1512 (0, 0) (exec cv0 slidePrefix (init cv0)))"
proof -
  have a: "0 \<le> frameDt 1512 (exec cv0 slidePrefix (init cv0))"
    unfolding slidePrefix_state by (simp add: frameDt_def)
  have b: "\<not> y (loop cv0 1512 (0, 0) (exec cv0 slidePrefix (init cv0)))
        \<le> GROUND_Y cv0 - currentPlayerH (loop cv0 1512 (0, 0) (exec cv0 slidePrefix (init cv0)))"
    unfolding slide_expiry_frame
    by (simp add: currentPlayerH_def GROUND_Y_def H_def cv0_def PLAYER_H_def)
  from a b show ?thesis by simp
qed

text \<open>
  C3, amended: for every time step and every state, the integration step leaves \<open>y\<close>
  at or above the ground line of the stance the player has during that step; at the end
  of the frame \<open>y\<close> is at or above the sliding ground line in any case, and at or above
  the ground line of the current stance whenever the frame did not change the stance;
  and when the integrated position passes the ground line, the frame ends with \<open>y\<close>
  on that line and \<open>vy = 0\<close>.
\<close>

theorem ground_clamp:
  "y (physics cv dt s) \<le> GROUND_Y cv - currentPlayerH s
   \<and> y (step cv dt rnd s) \<le> GROUND_Y cv - PLAYER_H_SLIDE
   \<and> (sliding (step cv dt rnd s) = sliding s \<longrightarrow>
        y (step cv dt rnd s) \<le> GROUND_Y cv - currentPlayerH (step cv dt rnd s))
   \<and> (y s + (vy s + GRAVITY * dt) * dt > GROUND_Y cv - currentPlayerH s \<longrightarrow>
        y (step cv dt rnd s) = GROUND_Y cv - currentPlayerH s \<and> vy (step cv dt rnd s) = 0)"
proof -
  have a: "y (physics cv dt s) \<le> GROUND_Y cv - currentPlayerH s"
    by (rule physics_le)
  have "currentPlayerH s \<ge> PLAYER_H_SLIDE"
    by (simp add: currentPlayerH_def PLAYER_H_SLIDE_def PLAYER_H_def)
  with a have b: "y (step cv dt rnd s) \<le> GROUND_Y cv - PLAYER_H_SLIDE"
    by (simp add: step_y)
  have c: "sliding (step cv dt rnd s) = sliding s \<longrightarrow>
      y (step cv dt rnd s) \<le> GROUND_Y cv - currentPlayerH (step cv dt rnd s)"
    using a by (simp add: step_y currentPlayerH_def)
  have d: "y s + (vy s + GRAVITY * dt) * dt > GROUND_Y cv - currentPlayerH s \<longrightarrow>
      y (step cv dt rnd s) = GROUND_Y cv - currentPlayerH s \<and> vy (step cv dt rnd s) = 0"
    using physics_landing [of cv s dt] by (simp add: step_y)
  from a b c d show ?thesis by blast
qed

theorem ground_clamp_witness:
  "sliding (step cv0 0.016 (0, 0) (init cv0)) = sliding (init cv0)
   \<and> y (init cv0) + (vy (init cv0) + GRAVITY * 0.016) * 0.016
        > GROUND_Y cv0 - currentPlayerH (init cv0)
   \<and> y (step cv0 0.016 (0, 0) (init cv0))
        \<le> GROUND_Y cv0 - currentPlayerH (step cv0 0.016 (0, 0) (init cv0))
   \<and> y (step cv0 0.016 (0, 0) (init cv0)) = 400
   \<and> vy (step cv0 0.016 (0, 0) (init cv0)) = 0"
proof -
  have a: "sliding (step cv0 0.016 (0, 0) (init cv0)) = sliding (init cv0)"
    by (simp add: step_sliding init_def reset_def)
  have b: "y (init cv0) + (vy (init cv0) + GRAVITY * 0.016) * 0.016
      > GROUND_Y cv0 - currentPlayerH (init cv0)"
    by (simp add: init_def reset_def currentPlayerH_def GRAVITY_def)
  have c: "GROUND_Y cv0 - currentPlayerH (init cv0) = 400"
    by (simp add: init_def reset_def currentPlayerH_def GROUND_Y_def H_def cv0_def PLAYER_H_def)
  from ground_clamp [of cv0 "0.016" "init cv0" "(0, 0)"] a b c show ?thesis
    by simp
qed

section \<open>Frames with a time step of zero or less\<close>

text \<open>
  C1, as stated: a frame whose time step is zero or negative changes nothing and never
  integrates backwards. It fails for a negative step: only the upper side of \<open>dt\<close> is
  clamped, so a timestamp 10 ms before the previous one gives \<open>dt = -0.01\<close> and the
  score goes from 0 to \<open>-2\<close>. It also fails for the vertical position at a step of
  zero: when the frame in which a slide expired is delivered again with the same
  timestamp, the clamp, now with the standing height, moves \<open>y\<close> from 450 to 400.
\<close>

theorem nonpositive_dt_counterexample:
  "frameDt 990 (loop cv0 1000 (0, 0) (init cv0)) < 0
   \<and> score (loop cv0 1000 (0, 0) (init cv0)) = 0
   \<and> score (loop cv0 990 (0, 0) (loop cv0 1000 (0, 0) (init cv0))) = - 2
   \<and> frameDt 1512 (loop cv0 1512 (0, 0) (exec cv0 slidePrefix (init cv0))) = 0
   \<and> y (loop cv0 1512 (0, 0) (exec cv0 slidePrefix (init cv0))) = 450
   \<and> y (loop cv0 1512 (0, 0) (loop cv0 1512 (0, 0) (exec cv0 slidePrefix (init cv0)))) = 400"
proof -
  have a: "frameDt 990 (loop cv0 1000 (0, 0) (init cv0)) < 0
     \<and> score (loop cv0 1000 (0, 0) (init cv0)) = 0
     \<and> score (loop cv0 990 (0, 0) (loop cv0 1000 (0, 0) (init cv0))) = - 2"
    by code_simp
  have b: "frameDt 1512 (loop cv0 1512 (0, 0) (exec cv0 slidePrefix (init cv0))) = 0
     \<and> y (loop cv0 1512 (0, 0) (exec cv0 slidePrefix (init cv0))) = 450
     \<and> y (loop cv0 1512 (0, 0) (loop cv0 1512 (0, 0) (exec cv0 slidePrefix (init cv0)))) = 400"
    unfolding slide_expiry_frame by code_simp
  from a b show ?thesis by simp
qed

text \<open>
  C1, amended: in a run from the initial state, a frame whose time step is exactly
  zero (a repeated timestamp, or the first frame after a reset) leaves the score, the
  lane progress, the sliding flag, the slide timer, the spawn timer and the obstacle
  list as they were, and leaves \<open>y\<close> and \<open>vy\<close> as they were when the player is not
  below the ground line of the current stance.
\<close>

theorem zero_dt_frame:
  assumes "frameDt ts (exec cv es (init cv)) = 0"
  shows "score (loop cv ts rnd (exec cv es (init cv))) = score (exec cv es (init cv))
   \<and> laneProgress (loop cv ts rnd (exec cv es (init cv))) = laneProgress (exec cv es (init cv))
   \<and> sliding (loop cv ts rnd (exec cv es (init cv))) = sliding (exec cv es (init cv))
   \<and> slideTimer (loop cv ts rnd (exec cv es (init cv))) = slideTimer (exec cv es (init cv))
   \<and> spawnTimer (loop cv ts rnd (exec cv es (init cv))) = spawnTimer (exec cv es (init cv))
   \<and> obstacles (loop cv ts rnd (exec cv es (init cv))) = obstacles (exec cv es (init cv))
   \<and> (y (exec cv es (init cv)) \<le> GROUND_Y cv - currentPlayerH (exec cv es (init cv)) \<longrightarrow>
        y (loop cv ts rnd (exec cv es (init cv))) = y (exec cv es (init cv))
        \<and> vy (loop cv ts rnd (exec cv es (init cv))) = vy (exec cv es (init cv)))"
proof -
  define s where "s = exec cv es (init cv)"
  define t where "t = s\<lparr>lastTime := ts\<rparr>"
  have inv: "stepInv s"
    unfolding s_def by (rule exec_stepInv [OF init_stepInv])
  have l: "loop cv ts rnd s = step cv 0 rnd t"
    using assms by (simp add: loop_def s_def t_def)
  have f: "sliding t = sliding s" "slideTimer t = slideTimer s" "spawnTimer t = spawnTimer s"
    "obstacles t = obstacles s" "score t = score s" "laneProgress t = laneProgress s"
    "y t = y s" "vy t = vy s" "currentPlayerH t = currentPlayerH s"
    by (simp_all add: t_def currentPlayerH_def)
  have 1: "score (step cv 0 rnd t) = score s"
    by (simp add: step_score f)
  have 2: "laneProgress (step cv 0 rnd t) = laneProgress s"
    by (simp add: step_laneProgress f)
  have 3: "sliding (step cv 0 rnd t) = sliding s"
    using inv by (auto simp: step_sliding f stepInv_def)
  have 4: "slideTimer (step cv 0 rnd t) = slideTimer s"
    by (simp add: step_slideTimer f)
  have 5: "spawnTimer (step cv 0 rnd t) = spawnTimer s"
    using inv by (simp add: step_spawnTimer f stepInv_def)
  have "obstacles (updateSpawn cv 0 rnd t) = obstacles s"
    using inv by (simp add: updateSpawn_def Let_def f stepInv_def)
  then have 6: "obstacles (step cv 0 rnd t) = obstacles s"
    using inv moveObstacles_zero [of "obstacles s"] by (simp add: step_obstacles stepInv_def)
  have 7: "y s \<le> GROUND_Y cv - currentPlayerH s \<longrightarrow>
      y (step cv 0 rnd t) = y s \<and> vy (step cv 0 rnd t) = vy s"
    using physics_zero [of t cv] by (simp add: step_y f)
  from 1 2 3 4 5 6 7 show ?thesis
    unfolding s_def [symmetric] l by blast
qed

lemma repeatedFrame_state:
  "exec cv0 repeatedFrame (init cv0) =
     \<lparr>running = True, score = 0, lastTime = 1000, laneIndex = 0, laneProgress = 0,
      laneFrom = 1, laneTo = 0, y = 400, vy = 0, sliding = True, slideTimer = 0.5,
      obstacles = [], spawnTimer = 0, restartHidden = True\<rparr>"
  by code_simp

theorem zero_dt_frame_witness:
  "frameDt 1000 (exec cv0 repeatedFrame (init cv0)) = 0
   \<and> y (exec cv0 repeatedFrame (init cv0))
        \<le> GROUND_Y cv0 - currentPlayerH (exec cv0 repeatedFrame (init cv0))
   \<and> score (loop cv0 1000 (0, 0) (exec cv0 repeatedFrame (init cv0))) = 0
   \<and> laneProgress (loop cv0 1000 (0, 0) (exec cv0 repeatedFrame (init cv0))) = 0
   \<and> slideTimer (loop cv0 1000 (0, 0) (exec cv0 repeatedFrame (init cv0))) = 0.5
   \<and> y (loop cv0 1000 (0, 0) (exec cv0 repeatedFrame (init cv0))) = 400"
proof -
  have a: "frameDt 1000 (exec cv0 repeatedFrame (init cv0)) = 0"
    unfolding repeatedFrame_state by (simp add: frameDt_def)
  have b: "y (exec cv0 repeatedFrame (init cv0))
      \<le> GROUND_Y cv0 - currentPlayerH (exec cv0 repeatedFrame (init cv0))"
    unfolding repeatedFrame_state
    by (simp add: currentPlayerH_def GROUND_Y_def H_def cv0_def PLAYER_H_SLIDE_def)
  have c: "score (exec cv0 repeatedFrame (init cv0)) = 0"
    "laneProgress (exec cv0 repeatedFrame (init cv0)) = 0"
    "slideTimer (exec cv0 repeatedFrame (init cv0)) = 0.5"
    "y (exec cv0 repeatedFrame (init cv0)) = 400"
    unfolding repeatedFrame_state by simp_all
  from zero_dt_frame [OF a, of "(0, 0)"] a b c show ?thesis
    by simp
qed

section \<open>Spawn cadence\<close>







section \<open>Lane interpolation\<close>









end
